theory Spec2Isabelle
  imports Complex_Main "HOL-Library.AList"
begin

section \<open>Values, documents and errors\<close>

text \<open>
  The handlers of \<^verbatim>\<open>services/api/app/main.py\<close> work on the dictionaries that the
  document store returns. A point in time is the number of microseconds since the epoch,
  so \<^verbatim>\<open>timedelta(hours=h)\<close> is \<open>h * 3600000000\<close>.

  A value of a document field is one of Python's scalars. A float is a finite number
  (taken as the real it denotes), one of the two infinities, or NaN. \<open>PDatetime\<close> is a
  timestamp as the store hands it out (it has \<^verbatim>\<open>isoformat\<close>); \<open>PStamp\<close> is an object
  that only offers \<^verbatim>\<open>timestamp()\<close>. \<open>PIsoText t\<close> is the string \<^verbatim>\<open>t.isoformat()\<close>, and
  \<open>PLocalIsoText t\<close> the string \<^verbatim>\<open>datetime.fromtimestamp(t).isoformat()\<close>; the text
  itself is produced by the standard library and is kept symbolic.
\<close>

type_synonym datetime = int

datatype pyfloat = Finite real | PosInf | NegInf | NaN

datatype pyval =
    PNone
  | PBool bool
  | PInt int
  | PFloat pyfloat
  | PStr string
  | PDatetime datetime
  | PStamp datetime
  | PIsoText datetime
  | PLocalIsoText datetime

text \<open>
  A dictionary keeps its keys in insertion order: \<open>map_of\<close> reads a key and
  \<open>AList.update\<close> overwrites a key in place or appends a new one at the end.
\<close>

type_synonym pydict = "(string \<times> pyval) list"

record doc =
  doc_id :: string
  to_dict :: pydict

datatype error =
    RequestValidationError "string list"
  | HTTPException int string
  | StoreError string
  | KeyError pyval
  | TypeError

definition ebind :: "error + 'a \<Rightarrow> ('a \<Rightarrow> error + 'b) \<Rightarrow> error + 'b" where
  "ebind m f = (case m of Inl e \<Rightarrow> Inl e | Inr x \<Rightarrow> f x)"

text \<open>\<^verbatim>\<open>data.get(k)\<close>: the value, or None for a missing key.\<close>

definition dict_get :: "pydict \<Rightarrow> string \<Rightarrow> pyval" where
  "dict_get data k = (case map_of data k of None \<Rightarrow> PNone | Some v \<Rightarrow> v)"

text \<open>\<^verbatim>\<open>data[k]\<close>: the value, or KeyError for a missing key.\<close>

definition getitem :: "pydict \<Rightarrow> string \<Rightarrow> error + pyval" where
  "getitem data k =
     (case map_of data k of None \<Rightarrow> Inl (KeyError (PStr k)) | Some v \<Rightarrow> Inr v)"

text \<open>
  \<^verbatim>\<open>p and value != p\<close> for an optional string parameter \<^verbatim>\<open>p\<close>: None and the empty
  string are false, so only a non-empty string is compared with the value.
\<close>

definition mismatch :: "string option \<Rightarrow> pyval \<Rightarrow> bool" where
  "mismatch p v = (case p of None \<Rightarrow> False | Some s \<Rightarrow> s \<noteq> [] \<and> v \<noteq> PStr s)"

text \<open>
  \<^verbatim>\<open>x < y\<close> on floats: every comparison with NaN is false, the infinities lie below
  and above all finite numbers.
\<close>

fun float_lt :: "pyfloat \<Rightarrow> pyfloat \<Rightarrow> bool" where
  "float_lt NaN y = False"
| "float_lt x NaN = False"
| "float_lt (Finite a) (Finite b) = (a < b)"
| "float_lt PosInf y = False"
| "float_lt x NegInf = False"
| "float_lt NegInf y = True"
| "float_lt x PosInf = True"

text \<open>\<^verbatim>\<open>x <= y\<close> on floats, again false when either is NaN.\<close>

fun float_le :: "pyfloat \<Rightarrow> pyfloat \<Rightarrow> bool" where
  "float_le NaN y = False"
| "float_le x NaN = False"
| "float_le (Finite a) (Finite b) = (a \<le> b)"
| "float_le NegInf y = True"
| "float_le x PosInf = True"
| "float_le PosInf y = False"
| "float_le x NegInf = False"

text \<open>
  \<^verbatim>\<open>value < min_ev\<close> for a float \<^verbatim>\<open>min_ev\<close>: an integer compares by its exact value and
  a bool is the integer 0 or 1; every value that is not a number raises TypeError.
\<close>

fun py_lt :: "pyval \<Rightarrow> pyfloat \<Rightarrow> error + bool" where
  "py_lt (PFloat x) m = Inr (float_lt x m)"
| "py_lt (PInt i) m = Inr (float_lt (Finite (real_of_int i)) m)"
| "py_lt (PBool b) m = Inr (float_lt (Finite (if b then 1 else 0)) m)"
| "py_lt v m = Inl TypeError"

text \<open>Lines 96-100 and 138-141: a timestamp becomes its ISO text, other values stay.\<close>

fun to_iso :: "pyval \<Rightarrow> pyval" where
  "to_iso (PDatetime t) = PIsoText t"
| "to_iso (PStamp t) = PLocalIsoText t"
| "to_iso v = v"

section \<open>The document store\<close>

text \<open>
  A query is what the handlers build with \<^verbatim>\<open>where\<close>, \<^verbatim>\<open>order_by\<close> and \<^verbatim>\<open>limit\<close>.
  Streaming a query yields documents and may fail with a cause text. The store answers a
  query through \<open>respond\<close>; \<open>issued\<close> records the queries streamed so far.
\<close>

datatype direction = ASCENDING | DESCENDING

record query =
  q_collection :: string
  q_filters :: "(string \<times> string \<times> datetime) list"
  q_order :: "(string \<times> direction) list"
  q_limit :: "int option"

record stream =
  yielded :: "doc list"
  failure :: "string option"

record store =
  respond :: "query \<Rightarrow> stream"
  issued :: "query list"

definition collection :: "string \<Rightarrow> query" where
  "collection name = \<lparr>q_collection = name, q_filters = [], q_order = [], q_limit = None\<rparr>"

definition where_filter :: "string \<Rightarrow> string \<Rightarrow> datetime \<Rightarrow> query \<Rightarrow> query" where
  "where_filter field oper v q = q\<lparr>q_filters := q_filters q @ [(field, oper, v)]\<rparr>"

definition order_by :: "string \<Rightarrow> direction \<Rightarrow> query \<Rightarrow> query" where
  "order_by field dir q = q\<lparr>q_order := q_order q @ [(field, dir)]\<rparr>"

definition limit_to :: "int \<Rightarrow> query \<Rightarrow> query" where
  "limit_to n q = q\<lparr>q_limit := Some n\<rparr>"

definition stream_query :: "query \<Rightarrow> store \<Rightarrow> stream \<times> store" where
  "stream_query q st = (respond st q, st\<lparr>issued := issued st @ [q]\<rparr>)"

definition hours :: "int \<Rightarrow> int" where
  "hours h = h * 3600000000"

text \<open>Lines 58-61 and 121-124: the range query both handlers share.\<close>

definition range_query :: "datetime \<Rightarrow> datetime \<Rightarrow> query" where
  "range_query now max_time =
     order_by ''commence_time'' ASCENDING
       (where_filter ''commence_time'' ''<='' max_time
         (where_filter ''commence_time'' ''>'' now (collection ''odds'')))"

section \<open>List odds\<close>

text \<open>Lines 77-88: the secondary filters, in the order of the source.\<close>

definition keep_row ::
  "string option \<Rightarrow> string option \<Rightarrow> pyfloat option \<Rightarrow> pydict \<Rightarrow> error + bool" where
  "keep_row bookmaker team min_ev data =
     (if mismatch bookmaker (dict_get data ''bookmaker'') then Inr False
      else if mismatch team (dict_get data ''team'') then Inr False
      else case min_ev of
        None \<Rightarrow> Inr True
      | Some m \<Rightarrow>
          if dict_get data ''ev_percentage'' = PNone then Inr False
          else ebind (py_lt (dict_get data ''ev_percentage'') m) (\<lambda>below. Inr (\<not> below)))"

text \<open>Lines 94-100: one timestamp field of the result.\<close>

definition convert_field :: "string \<Rightarrow> pydict \<Rightarrow> pydict" where
  "convert_field field data =
     (case map_of data field of
        None \<Rightarrow> data
      | Some v \<Rightarrow> if v = PNone then data else AList.update field (to_iso v) data)"

text \<open>Lines 91-100: the result built from a document that passed the filters.\<close>

definition render :: "doc \<Rightarrow> pydict" where
  "render d =
     convert_field ''ingested_at''
       (convert_field ''last_update''
         (convert_field ''commence_time''
           (AList.update ''id'' (PStr (doc_id d)) (to_dict d))))"

text \<open>Lines 73-108: the loop over the retrieved documents.\<close>

fun odds_loop ::
  "string option \<Rightarrow> string option \<Rightarrow> pyfloat option \<Rightarrow> int \<Rightarrow> doc list \<Rightarrow> pydict list
     \<Rightarrow> error + pydict list" where
  "odds_loop bookmaker team min_ev limit [] results = Inr results"
| "odds_loop bookmaker team min_ev limit (d # docs) results =
     (case keep_row bookmaker team min_ev (to_dict d) of
        Inl e \<Rightarrow> Inl e
      | Inr False \<Rightarrow> odds_loop bookmaker team min_ev limit docs results
      | Inr True \<Rightarrow>
          (let results' = results @ [render d] in
           if int (length results') \<ge> limit then Inr results'
           else odds_loop bookmaker team min_ev limit docs results'))"

definition query_failed_detail :: "string \<Rightarrow> string" where
  "query_failed_detail cause =
     ''Query failed. You may need to create a Firestore index. Error: '' @ cause"

text \<open>Lines 54-108: the handler, called with validated parameters.\<close>

definition get_odds ::
  "string option \<Rightarrow> string option \<Rightarrow> pyfloat option \<Rightarrow> int \<Rightarrow> int \<Rightarrow> datetime \<Rightarrow> store
     \<Rightarrow> (error + pydict list) \<times> store" where
  "get_odds bookmaker team min_ev hours_ahead limit now st =
     (let max_time = now + hours hours_ahead;
          q = limit_to (limit * 5) (range_query now max_time);
          (s, st') = stream_query q st
      in case failure s of
           Some cause \<Rightarrow> (Inl (HTTPException 500 (query_failed_detail cause)), st')
         | None \<Rightarrow> (odds_loop bookmaker team min_ev limit (yielded s) [], st'))"

text \<open>
  Lines 38-44: the declared parameters. A parameter left out takes its default; one that
  is given is checked against its bounds before the handler runs. The request is rejected
  with the names of all parameters that fail, in the order of their declaration.
\<close>

record odds_request =
  r_bookmaker :: "string option"
  r_team :: "string option"
  r_min_ev :: "pyfloat option"
  r_hours_ahead :: "int option"
  r_limit :: "int option"

definition check_hours_ahead :: "int option \<Rightarrow> error + int" where
  "check_hours_ahead p =
     (case p of
        None \<Rightarrow> Inr 48
      | Some h \<Rightarrow> if 1 \<le> h \<and> h \<le> 168 then Inr h else Inl (RequestValidationError [''hours_ahead'']))"

definition check_limit :: "int option \<Rightarrow> error + int" where
  "check_limit p =
     (case p of
        None \<Rightarrow> Inr 100
      | Some l \<Rightarrow> if l \<le> 500 then Inr l else Inl (RequestValidationError [''limit'']))"

definition validation_errors :: "error + int \<Rightarrow> string list" where
  "validation_errors r = (case r of Inl (RequestValidationError ps) \<Rightarrow> ps | _ \<Rightarrow> [])"

definition odds_endpoint ::
  "odds_request \<Rightarrow> datetime \<Rightarrow> store \<Rightarrow> (error + pydict list) \<times> store" where
  "odds_endpoint req now st =
     (let ch = check_hours_ahead (r_hours_ahead req);
          cl = check_limit (r_limit req)
      in case (ch, cl) of
           (Inr h, Inr l) \<Rightarrow>
             get_odds (r_bookmaker req) (r_team req) (r_min_ev req) h l now st
         | _ \<Rightarrow>
             (Inl (RequestValidationError (validation_errors ch @ validation_errors cl)), st))"

section \<open>List games\<close>

text \<open>
  Lines 143-149 and 156-160: the dictionaries the handler builds have fixed keys, so they
  are records; \<open>g_bookmakers\<close> and the dictionary of games keep insertion order.
\<close>

record odds_entry =
  e_team :: pyval
  e_point_spread :: pyval
  e_odds :: pyval

record game_view =
  g_game_id :: pyval
  g_home_team :: pyval
  g_away_team :: pyval
  g_commence_time :: pyval
  g_bookmakers :: "(pyval \<times> odds_entry list) list"

type_synonym games_dict = "(pyval \<times> game_view) list"

text \<open>
  Lines 153-160: create the bookmaker's list if needed, then append the entry. Keys are
  looked up by equality of values. That is Python's lookup for string keys, which is what
  the data model has for the game id and the bookmaker; Python also takes \<^verbatim>\<open>1\<close>,
  \<^verbatim>\<open>1.0\<close> and \<^verbatim>\<open>True\<close> for one key, which this lookup does not, so the properties of
  List games below are stated for string keys.
\<close>

definition append_entry ::
  "pyval \<Rightarrow> odds_entry \<Rightarrow> (pyval \<times> odds_entry list) list \<Rightarrow> (pyval \<times> odds_entry list) list" where
  "append_entry bookmaker e bms =
     (let bms' = (if map_of bms bookmaker = None then AList.update bookmaker [] bms else bms)
      in case map_of bms' bookmaker of
           None \<Rightarrow> bms'
         | Some es \<Rightarrow> AList.update bookmaker (es @ [e]) bms')"

text \<open>Lines 132-160: the body of the loop, for one document.\<close>

definition games_step :: "doc \<Rightarrow> games_dict \<Rightarrow> error + games_dict" where
  "games_step d games =
     (let data = to_dict d in
      ebind (getitem data ''game_id'') (\<lambda>game_id.
      ebind
        (if map_of games game_id = None then
           ebind (getitem data ''commence_time'') (\<lambda>commence_time.
           ebind (getitem data ''home_team'') (\<lambda>home_team.
           ebind (getitem data ''away_team'') (\<lambda>away_team.
           Inr (AList.update game_id
                  \<lparr>g_game_id = game_id, g_home_team = home_team, g_away_team = away_team,
                   g_commence_time = to_iso commence_time, g_bookmakers = []\<rparr> games))))
         else Inr games) (\<lambda>games'.
      ebind (getitem data ''bookmaker'') (\<lambda>bookmaker.
      ebind (getitem data ''team'') (\<lambda>team.
      ebind (getitem data ''point_spread'') (\<lambda>point_spread.
      ebind (getitem data ''odds'') (\<lambda>odds.
      case map_of games' game_id of
        None \<Rightarrow> Inl (KeyError game_id)
      | Some g \<Rightarrow>
          Inr (AList.update game_id
                 (g\<lparr>g_bookmakers :=
                      append_entry bookmaker
                        \<lparr>e_team = team, e_point_spread = point_spread, e_odds = odds\<rparr>
                        (g_bookmakers g)\<rparr>) games'))))))))"

text \<open>
  Lines 127-162: the stream is consumed by the loop itself, so a failure of the store
  is raised from the loop, after the documents that were yielded before it.
\<close>

fun games_loop :: "doc list \<Rightarrow> string option \<Rightarrow> games_dict \<Rightarrow> error + games_dict" where
  "games_loop [] None games = Inr games"
| "games_loop [] (Some cause) games = Inl (StoreError cause)"
| "games_loop (d # docs) fail games =
     (case games_step d games of
        Inl e \<Rightarrow> Inl e
      | Inr games' \<Rightarrow> games_loop docs fail games')"

definition get_upcoming_games ::
  "int \<Rightarrow> datetime \<Rightarrow> store \<Rightarrow> (error + game_view list) \<times> store" where
  "get_upcoming_games hours_ahead now st =
     (let max_time = now + hours hours_ahead;
          q = limit_to 500 (range_query now max_time);
          (s, st') = stream_query q st
      in (ebind (games_loop (yielded s) (failure s) []) (\<lambda>games. Inr (map snd games)), st'))"

definition games_endpoint ::
  "int option \<Rightarrow> datetime \<Rightarrow> store \<Rightarrow> (error + game_view list) \<times> store" where
  "games_endpoint hours_ahead now st =
     (case check_hours_ahead hours_ahead of
        Inl e \<Rightarrow> (Inl e, st)
      | Inr h \<Rightarrow> get_upcoming_games h now st)"

section \<open>Notions used to state the properties\<close>

text \<open>The queries of the two handlers, by name.\<close>

definition odds_query :: "datetime \<Rightarrow> int \<Rightarrow> int \<Rightarrow> query" where
  "odds_query now hours_ahead limit =
     limit_to (limit * 5) (range_query now (now + hours hours_ahead))"

definition games_query :: "datetime \<Rightarrow> int \<Rightarrow> query" where
  "games_query now hours_ahead = limit_to 500 (range_query now (now + hours hours_ahead))"

text \<open>A document passes the secondary filters.\<close>

definition kept :: "string option \<Rightarrow> string option \<Rightarrow> pyfloat option \<Rightarrow> doc \<Rightarrow> bool" where
  "kept bookmaker team min_ev d = (keep_row bookmaker team min_ev (to_dict d) = Inr True)"

text \<open>The commence time of a stored document, and of a result after conversion.\<close>

definition stored_time :: "pydict \<Rightarrow> datetime option" where
  "stored_time data =
     (case map_of data ''commence_time'' of Some (PDatetime t) \<Rightarrow> Some t | _ \<Rightarrow> None)"

definition rendered_time :: "pydict \<Rightarrow> datetime option" where
  "rendered_time data =
     (case map_of data ''commence_time'' of Some (PIsoText t) \<Rightarrow> Some t | _ \<Rightarrow> None)"

definition in_window :: "datetime \<Rightarrow> datetime \<Rightarrow> datetime option \<Rightarrow> bool" where
  "in_window now max_time k = (case k of None \<Rightarrow> False | Some t \<Rightarrow> now < t \<and> t \<le> max_time)"

definition ascending :: "datetime option list \<Rightarrow> bool" where
  "ascending ks = (list_all (\<lambda>k. k \<noteq> None) ks \<and> sorted (map the ks))"

text \<open>The number a value denotes, for the EV threshold.\<close>

fun number_of :: "pyval \<Rightarrow> pyfloat option" where
  "number_of (PFloat x) = Some x"
| "number_of (PInt i) = Some (Finite (real_of_int i))"
| "number_of (PBool b) = Some (Finite (if b then 1 else 0))"
| "number_of v = None"

text \<open>The EV of a record, when the field is present and holds a number.\<close>

definition ev_value :: "pydict \<Rightarrow> pyfloat option" where
  "ev_value data =
     (case map_of data ''ev_percentage'' of None \<Rightarrow> None | Some v \<Rightarrow> number_of v)"

text \<open>\<^verbatim>\<open>x >= y\<close> on floats.\<close>

definition float_ge :: "pyfloat \<Rightarrow> pyfloat \<Rightarrow> bool" where
  "float_ge x y = float_le y x"

definition ev_missing_or_below :: "pyfloat \<Rightarrow> pydict \<Rightarrow> bool" where
  "ev_missing_or_below m data =
     (dict_get data ''ev_percentage'' = PNone \<or>
      (case number_of (dict_get data ''ev_percentage'') of
         None \<Rightarrow> False
       | Some x \<Rightarrow> float_lt x m))"


text \<open>A store that answers every query with the given documents, or with a failure.\<close>

definition answering :: "doc list \<Rightarrow> store" where
  "answering rows = \<lparr>respond = (\<lambda>q. \<lparr>yielded = rows, failure = None\<rparr>), issued = []\<rparr>"

definition failing :: "string \<Rightarrow> store" where
  "failing cause = \<lparr>respond = (\<lambda>q. \<lparr>yielded = [], failure = Some cause\<rparr>), issued = []\<rparr>"

section \<open>Grouping, as the specification words it\<close>

text \<open>The distinct elements of a list, in the order in which each is first met.\<close>

primrec first_seen :: "'a list \<Rightarrow> 'a list" where
  "first_seen [] = []"
| "first_seen (x # xs) = x # filter (\<lambda>y. y \<noteq> x) (first_seen xs)"











section \<open>Example data\<close>

definition now0 :: datetime where
  "now0 = 1700000000000000"

definition row_a :: doc where
  "row_a = \<lparr>doc_id = ''doc_a'', to_dict =
     [(''game_id'', PStr ''G1''), (''home_team'', PStr ''Home''), (''away_team'', PStr ''Away''),
      (''commence_time'', PDatetime (now0 + hours 2)), (''bookmaker'', PStr ''A''),
      (''team'', PStr ''Home''), (''point_spread'', PFloat (Finite (- 3.5))), (''odds'', PInt (- 110)),
      (''ev_percentage'', PFloat (Finite 3))]\<rparr>"

definition row_b :: doc where
  "row_b = \<lparr>doc_id = ''doc_b'', to_dict =
     [(''game_id'', PStr ''G1''), (''home_team'', PStr ''Home''), (''away_team'', PStr ''Away''),
      (''commence_time'', PDatetime (now0 + hours 2)), (''bookmaker'', PStr ''B''),
      (''team'', PStr ''Home''), (''point_spread'', PFloat (Finite (- 3))), (''odds'', PInt (- 105)),
      (''ev_percentage'', PFloat (Finite 7))]\<rparr>"

definition row_c :: doc where
  "row_c = \<lparr>doc_id = ''doc_c'', to_dict =
     [(''game_id'', PStr ''G2''), (''home_team'', PStr ''North''), (''away_team'', PStr ''South''),
      (''commence_time'', PDatetime (now0 + hours 5)), (''bookmaker'', PStr ''A''),
      (''team'', PStr ''South''), (''point_spread'', PFloat (Finite 1.5)), (''odds'', PInt 120)]\<rparr>"

text \<open>A document whose commence time only offers \<^verbatim>\<open>timestamp()\<close>.\<close>

definition row_d :: doc where
  "row_d = \<lparr>doc_id = ''doc_d'', to_dict =
     [(''game_id'', PStr ''G3''), (''home_team'', PStr ''East''), (''away_team'', PStr ''West''),
      (''commence_time'', PStamp (now0 + hours 7)), (''bookmaker'', PStr ''B''),
      (''team'', PStr ''East''), (''point_spread'', PFloat (Finite 2)), (''odds'', PInt 100),
      (''ev_percentage'', PFloat NaN)]\<rparr>"

text \<open>A document whose EV is a string, and one without a game id.\<close>

definition row_text_ev :: doc where
  "row_text_ev = \<lparr>doc_id = ''doc_t'', to_dict =
     [(''game_id'', PStr ''G3''), (''commence_time'', PDatetime (now0 + hours 6)),
      (''bookmaker'', PStr ''A''), (''ev_percentage'', PStr ''n/a'')]\<rparr>"


definition plain_request :: odds_request where
  "plain_request =
     \<lparr>r_bookmaker = None, r_team = None, r_min_ev = None, r_hours_ahead = None, r_limit = None\<rparr>"


section \<open>Basic facts about the handlers\<close>

lemma odds_query_eq:
  "odds_query now h l =
     \<lparr>q_collection = ''odds'',
      q_filters = [(''commence_time'', ''>'', now), (''commence_time'', ''<='', now + hours h)],
      q_order = [(''commence_time'', ASCENDING)],
      q_limit = Some (l * 5)\<rparr>"
  by (simp add: odds_query_def range_query_def limit_to_def order_by_def where_filter_def
      collection_def)

lemma games_query_eq:
  "games_query now h =
     \<lparr>q_collection = ''odds'',
      q_filters = [(''commence_time'', ''>'', now), (''commence_time'', ''<='', now + hours h)],
      q_order = [(''commence_time'', ASCENDING)],
      q_limit = Some 500\<rparr>"
  by (simp add: games_query_def range_query_def limit_to_def order_by_def where_filter_def
      collection_def)

lemma get_odds_result:
  "fst (get_odds b t m h l now st) =
     (case failure (respond st (odds_query now h l)) of
        Some cause \<Rightarrow> Inl (HTTPException 500 (query_failed_detail cause))
      | None \<Rightarrow> odds_loop b t m l (yielded (respond st (odds_query now h l))) [])"
  by (simp add: get_odds_def odds_query_def stream_query_def Let_def split: option.splits)

lemma get_odds_store:
  "snd (get_odds b t m h l now st) = st\<lparr>issued := issued st @ [odds_query now h l]\<rparr>"
  by (simp add: get_odds_def odds_query_def stream_query_def Let_def split: option.splits)

lemma get_upcoming_games_result:
  "fst (get_upcoming_games h now st) =
     ebind (games_loop (yielded (respond st (games_query now h)))
              (failure (respond st (games_query now h))) [])
       (\<lambda>games. Inr (map snd games))"
  by (simp add: get_upcoming_games_def games_query_def stream_query_def Let_def)

lemma get_upcoming_games_store:
  "snd (get_upcoming_games h now st) = st\<lparr>issued := issued st @ [games_query now h]\<rparr>"
  by (simp add: get_upcoming_games_def games_query_def stream_query_def Let_def)

section \<open>Validation of the parameters\<close>

text \<open>
  C4. Whatever the other parameters are: a request whose \<open>hours_ahead\<close> lies outside
  1..168 (0 and 169 in particular) or whose \<open>limit\<close> lies above 500 (501 in particular)
  is rejected with a validation error that names the failing parameters, and the store is
  left untouched; every other request (\<open>hours_ahead\<close> 1 or 168, \<open>limit\<close> 500) reaches
  the handler, with \<open>hours_ahead = 48\<close> when it is left out and \<open>limit = 100\<close> when it
  is left out.
\<close>

theorem odds_endpoint_validation:
  "odds_endpoint req now st =
     (let bad_hours = (case r_hours_ahead req of None \<Rightarrow> False | Some h \<Rightarrow> h < 1 \<or> 168 < h);
          bad_limit = (case r_limit req of None \<Rightarrow> False | Some l \<Rightarrow> 500 < l)
      in if bad_hours \<or> bad_limit then
           (Inl (RequestValidationError
                  ((if bad_hours then [''hours_ahead''] else []) @
                   (if bad_limit then [''limit''] else []))), st)
         else get_odds (r_bookmaker req) (r_team req) (r_min_ev req)
                (case r_hours_ahead req of None \<Rightarrow> 48 | Some h \<Rightarrow> h)
                (case r_limit req of None \<Rightarrow> 100 | Some l \<Rightarrow> l) now st)
   \<and> odds_endpoint (req\<lparr>r_hours_ahead := Some 0, r_limit := None\<rparr>) now st
       = (Inl (RequestValidationError [''hours_ahead'']), st)
   \<and> odds_endpoint (req\<lparr>r_hours_ahead := Some 169, r_limit := None\<rparr>) now st
       = (Inl (RequestValidationError [''hours_ahead'']), st)
   \<and> odds_endpoint (req\<lparr>r_hours_ahead := Some 1, r_limit := None\<rparr>) now st
       = get_odds (r_bookmaker req) (r_team req) (r_min_ev req) 1 100 now st
   \<and> odds_endpoint (req\<lparr>r_hours_ahead := Some 168, r_limit := None\<rparr>) now st
       = get_odds (r_bookmaker req) (r_team req) (r_min_ev req) 168 100 now st
   \<and> odds_endpoint (req\<lparr>r_hours_ahead := None, r_limit := Some 501\<rparr>) now st
       = (Inl (RequestValidationError [''limit'']), st)
   \<and> odds_endpoint (req\<lparr>r_hours_ahead := None, r_limit := Some 500\<rparr>) now st
       = get_odds (r_bookmaker req) (r_team req) (r_min_ev req) 48 500 now st
   \<and> odds_endpoint (req\<lparr>r_hours_ahead := None, r_limit := None\<rparr>) now st
       = get_odds (r_bookmaker req) (r_team req) (r_min_ev req) 48 100 now st"
  by (simp add: odds_endpoint_def check_hours_ahead_def check_limit_def validation_errors_def
      Let_def split: option.splits)

theorem odds_endpoint_validation_witness:
  "odds_endpoint (plain_request\<lparr>r_limit := Some 501\<rparr>) now0 (answering [row_a])
     = (Inl (RequestValidationError [''limit'']), answering [row_a])
   \<and> odds_endpoint (plain_request\<lparr>r_hours_ahead := Some 169, r_limit := Some 501\<rparr>) now0
       (answering [row_a])
     = (Inl (RequestValidationError [''hours_ahead'', ''limit'']), answering [row_a])
   \<and> odds_endpoint (plain_request\<lparr>r_hours_ahead := Some 0, r_limit := Some 7\<rparr>) now0
       (answering [row_a])
     = (Inl (RequestValidationError [''hours_ahead'']), answering [row_a])
   \<and> odds_endpoint (plain_request\<lparr>r_limit := Some 500\<rparr>) now0 (answering [row_a])
     = get_odds None None None 48 500 now0 (answering [row_a])
   \<and> odds_endpoint (plain_request\<lparr>r_hours_ahead := Some 168\<rparr>) now0 (answering [row_a])
     = get_odds None None None 168 100 now0 (answering [row_a])
   \<and> odds_endpoint plain_request now0 (answering [row_a])
     = get_odds None None None 48 100 now0 (answering [row_a])"
proof -
  note v = odds_endpoint_validation [THEN conjunct1]
  have a: "odds_endpoint (plain_request\<lparr>r_limit := Some 501\<rparr>) now0 (answering [row_a])
     = (Inl (RequestValidationError [''limit'']), answering [row_a])"
    using v [of "plain_request\<lparr>r_limit := Some 501\<rparr>" now0 "answering [row_a]"]
    by (simp add: plain_request_def)
  have b: "odds_endpoint (plain_request\<lparr>r_hours_ahead := Some 169, r_limit := Some 501\<rparr>) now0
       (answering [row_a])
     = (Inl (RequestValidationError [''hours_ahead'', ''limit'']), answering [row_a])"
    using v [of "plain_request\<lparr>r_hours_ahead := Some 169, r_limit := Some 501\<rparr>" now0
        "answering [row_a]"]
    by (simp add: plain_request_def)
  have c: "odds_endpoint (plain_request\<lparr>r_hours_ahead := Some 0, r_limit := Some 7\<rparr>) now0
       (answering [row_a])
     = (Inl (RequestValidationError [''hours_ahead'']), answering [row_a])"
    using v [of "plain_request\<lparr>r_hours_ahead := Some 0, r_limit := Some 7\<rparr>" now0
        "answering [row_a]"]
    by (simp add: plain_request_def)
  have d: "odds_endpoint (plain_request\<lparr>r_limit := Some 500\<rparr>) now0 (answering [row_a])
     = get_odds None None None 48 500 now0 (answering [row_a])"
    using v [of "plain_request\<lparr>r_limit := Some 500\<rparr>" now0 "answering [row_a]"]
    by (simp add: plain_request_def)
  have e: "odds_endpoint (plain_request\<lparr>r_hours_ahead := Some 168\<rparr>) now0 (answering [row_a])
     = get_odds None None None 168 100 now0 (answering [row_a])"
    using v [of "plain_request\<lparr>r_hours_ahead := Some 168\<rparr>" now0 "answering [row_a]"]
    by (simp add: plain_request_def)
  have f: "odds_endpoint plain_request now0 (answering [row_a])
     = get_odds None None None 48 100 now0 (answering [row_a])"
    using v [of plain_request now0 "answering [row_a]"]
    by (simp add: plain_request_def)
  from a b c d e f show ?thesis by (intro conjI)
qed

section \<open>The query sent to the store\<close>

text \<open>
  C8. Each handler streams exactly one query: the odds collection, \<open>commence_time > now\<close>
  and \<open>commence_time <= now + hours_ahead\<close>, ascending by \<open>commence_time\<close>; List odds
  caps it at \<open>limit * 5\<close> rows, List games at 500.
\<close>

theorem handlers_issue_one_range_query:
  "issued (snd (get_odds b t m h l now st)) = issued st @
     [\<lparr>q_collection = ''odds'',
       q_filters = [(''commence_time'', ''>'', now), (''commence_time'', ''<='', now + hours h)],
       q_order = [(''commence_time'', ASCENDING)],
       q_limit = Some (l * 5)\<rparr>]
   \<and> issued (snd (get_upcoming_games h now st)) = issued st @
     [\<lparr>q_collection = ''odds'',
       q_filters = [(''commence_time'', ''>'', now), (''commence_time'', ''<='', now + hours h)],
       q_order = [(''commence_time'', ASCENDING)],
       q_limit = Some 500\<rparr>]
   \<and> hours h = h * 3600000000"
  by (simp add: get_odds_store get_upcoming_games_store odds_query_eq games_query_eq hours_def)

text \<open>
  C10. The limit has no lower bound: a limit of zero or below passes validation, and the
  query then carries the row cap \<open>limit * 5\<close>, which is zero or negative.
\<close>

theorem limit_has_no_lower_bound:
  "l \<le> 0 \<Longrightarrow>
   (\<forall>k. (check_limit (Some k) = Inr k) = (k \<le> 500))
   \<and> check_limit (Some l) = Inr l
   \<and> odds_endpoint (req\<lparr>r_hours_ahead := None, r_limit := Some l\<rparr>) now st
       = get_odds (r_bookmaker req) (r_team req) (r_min_ev req) 48 l now st
   \<and> q_limit (last (issued (snd (get_odds b t m h l now st)))) = Some (l * 5)
   \<and> l * 5 \<le> 0"
  by (simp add: check_limit_def odds_endpoint_def check_hours_ahead_def get_odds_store
      odds_query_eq)

theorem limit_has_no_lower_bound_witness:
  "check_limit (Some 0) = Inr 0 \<and> check_limit (Some (- 3)) = Inr (- 3)
   \<and> q_limit (last (issued (snd (get_odds None None None 48 (- 3) now0 (answering []))))) = Some (- 15)
   \<and> q_limit (last (issued (snd (get_odds None None None 48 0 now0 (answering []))))) = Some 0"
  using limit_has_no_lower_bound [of 0 plain_request now0 "answering []" None None None 48]
    limit_has_no_lower_bound [of "- 3" plain_request now0 "answering []" None None None 48]
  by simp

section \<open>Independence of requests\<close>

text \<open>
  C9. A handler leaves the contents of the store as they are, and its output does not
  depend on the requests served before: the same query issued a second time, at the same
  current time, returns the same output, for List odds and for List games.
\<close>

theorem handlers_repeatable:
  "respond (snd (get_odds b t m h l now st)) = respond st
   \<and> respond (snd (get_upcoming_games h now st)) = respond st
   \<and> fst (get_odds b t m h l now (snd (get_odds b t m h l now st)))
       = fst (get_odds b t m h l now st)
   \<and> fst (get_upcoming_games h now (snd (get_upcoming_games h now st)))
       = fst (get_upcoming_games h now st)
   \<and> fst (get_odds b t m h l now (snd (get_upcoming_games h' now' st)))
       = fst (get_odds b t m h l now st)
   \<and> fst (get_upcoming_games h now (snd (get_odds b' t' m' h' l' now' st)))
       = fst (get_upcoming_games h now st)"
  by (simp add: get_odds_result get_odds_store get_upcoming_games_result
      get_upcoming_games_store split: option.splits)

section \<open>Failure of the store\<close>

text \<open>
  C3. When the range query fails, List odds raises an HTTP error with status 500 whose
  detail carries the cause text. List games does not catch the failure: the exception of
  the store leaves the handler as it is.
\<close>

theorem store_failure_surfaces:
  "fst (get_odds b t m h l now (failing cause))
     = Inl (HTTPException 500 (''Query failed. You may need to create a Firestore index. Error: '' @ cause))
   \<and> fst (get_upcoming_games h now (failing cause)) = Inl (StoreError cause)"
  by (simp add: get_odds_result get_upcoming_games_result failing_def query_failed_detail_def
      ebind_def)


section \<open>The loop of List odds\<close>

lemma py_lt_number_of:
  "py_lt v m = (case number_of v of None \<Rightarrow> Inl TypeError | Some x \<Rightarrow> Inr (float_lt x m))"
  by (cases v) simp_all


lemma keep_row_missing_or_below:
  "ev_missing_or_below x data \<Longrightarrow> keep_row b t (Some x) data = Inr False"
  by (auto simp: ev_missing_or_below_def keep_row_def ebind_def py_lt_number_of
      split: option.splits)

lemma odds_loop_shape:
  "odds_loop b t m l rows acc = Inr out \<Longrightarrow>
   \<exists>n. out = acc @ map render (filter (kept b t m) (take n rows))"
proof (induction rows arbitrary: acc)
  case Nil
  then show ?case by simp
next
  case (Cons d ds)
  show ?case
  proof (cases "keep_row b t m (to_dict d)")
    case (Inl e)
    with Cons.prems show ?thesis by simp
  next
    case (Inr k)
    show ?thesis
    proof (cases k)
      case False
      with Inr Cons.prems have "odds_loop b t m l ds acc = Inr out" by simp
      then obtain n where "out = acc @ map render (filter (kept b t m) (take n ds))"
        using Cons.IH by blast
      with Inr False have "out = acc @ map render (filter (kept b t m) (take (Suc n) (d # ds)))"
        by (simp add: kept_def)
      then show ?thesis by blast
    next
      case True
      show ?thesis
      proof (cases "l \<le> int (length (acc @ [render d]))")
        case stop: True
        with Inr True Cons.prems have "out = acc @ [render d]" by (simp add: Let_def)
        with Inr True have "out = acc @ map render (filter (kept b t m) (take (Suc 0) (d # ds)))"
          by (simp add: kept_def)
        then show ?thesis by blast
      next
        case go: False
        with Inr True Cons.prems have "odds_loop b t m l ds (acc @ [render d]) = Inr out"
          by (simp add: Let_def)
        then obtain n where "out = (acc @ [render d]) @ map render (filter (kept b t m) (take n ds))"
          using Cons.IH by blast
        with Inr True have "out = acc @ map render (filter (kept b t m) (take (Suc n) (d # ds)))"
          by (simp add: kept_def)
        then show ?thesis by blast
      qed
    qed
  qed
qed




lemma odds_loop_drop:
  "odds_loop b t (Some x) l rows acc
     = odds_loop b t (Some x) l (filter (\<lambda>d. \<not> ev_missing_or_below x (to_dict d)) rows) acc"
proof (induction rows arbitrary: acc)
  case Nil
  then show ?case by simp
next
  case (Cons d ds)
  show ?case
  proof (cases "ev_missing_or_below x (to_dict d)")
    case True
    then show ?thesis using Cons.IH by (simp add: keep_row_missing_or_below)
  next
    case False
    then show ?thesis using Cons.IH
      by (simp add: Let_def split: sum.splits bool.splits)
  qed
qed

section \<open>The rendered result\<close>

lemma map_of_convert_field:
  "map_of (convert_field f data) k
     = (if k = f then map_option to_iso (map_of data k) else map_of data k)"
  by (auto simp: convert_field_def update_conv' split: option.splits)

lemma map_of_render:
  "map_of (render d) k =
     (if k = ''id'' then Some (PStr (doc_id d))
      else if k = ''commence_time'' \<or> k = ''last_update'' \<or> k = ''ingested_at''
        then map_option to_iso (map_of (to_dict d) k)
      else map_of (to_dict d) k)"
  by (simp add: render_def map_of_convert_field update_conv')

lemma rendered_time_render:
  "stored_time (to_dict d) = Some u \<Longrightarrow> rendered_time (render d) = Some u"
  by (auto simp: stored_time_def rendered_time_def map_of_render
      split: option.splits pyval.splits)

lemma kept_bookmaker:
  "kept (Some s) t m d \<Longrightarrow> s \<noteq> [] \<Longrightarrow> map_of (render d) ''bookmaker'' = Some (PStr s)"
  by (auto simp: kept_def keep_row_def mismatch_def dict_get_def map_of_render
      split: option.splits if_splits)

lemma kept_team:
  "kept b (Some s) m d \<Longrightarrow> s \<noteq> [] \<Longrightarrow> map_of (render d) ''team'' = Some (PStr s)"
  by (auto simp: kept_def keep_row_def mismatch_def dict_get_def map_of_render
      split: option.splits if_splits)

lemma kept_ev:
  "kept b t (Some x) d \<Longrightarrow> \<exists>e. ev_value (render d) = Some e \<and> \<not> float_lt e x"
  by (auto simp: kept_def keep_row_def dict_get_def map_of_render ev_value_def ebind_def
      py_lt_number_of split: option.splits if_splits)

lemma mismatch_empty:
  "mismatch (Some []) v = mismatch None v"
  by (simp add: mismatch_def)

lemma keep_row_empty:
  "keep_row (Some []) t m data = keep_row None t m data"
  "keep_row b (Some []) m data = keep_row b None m data"
  by (simp_all add: keep_row_def mismatch_empty)

lemma odds_loop_empty_bookmaker:
  "odds_loop (Some []) t m l rows acc = odds_loop None t m l rows acc"
  by (induction rows arbitrary: acc)
    (simp_all add: keep_row_empty Let_def split: sum.splits bool.splits)

lemma odds_loop_empty_team:
  "odds_loop b (Some []) m l rows acc = odds_loop b None m l rows acc"
  by (induction rows arbitrary: acc)
    (simp_all add: keep_row_empty Let_def split: sum.splits bool.splits)

section \<open>Evaluation on the example data\<close>

lemma stored_time_examples:
  "stored_time (to_dict row_a) = Some (now0 + hours 2)"
  "stored_time (to_dict row_b) = Some (now0 + hours 2)"
  "stored_time (to_dict row_c) = Some (now0 + hours 5)"
  by (simp_all add: stored_time_def row_a_def row_b_def row_c_def)

lemma render_row_a:
  "render row_a =
     [(''game_id'', PStr ''G1''), (''home_team'', PStr ''Home''), (''away_team'', PStr ''Away''),
      (''commence_time'', PIsoText (now0 + hours 2)), (''bookmaker'', PStr ''A''),
      (''team'', PStr ''Home''), (''point_spread'', PFloat (Finite (- 3.5))), (''odds'', PInt (- 110)),
      (''ev_percentage'', PFloat (Finite 3)), (''id'', PStr ''doc_a'')]"
  by (simp add: render_def row_a_def convert_field_def)

lemma render_row_b:
  "render row_b =
     [(''game_id'', PStr ''G1''), (''home_team'', PStr ''Home''), (''away_team'', PStr ''Away''),
      (''commence_time'', PIsoText (now0 + hours 2)), (''bookmaker'', PStr ''B''),
      (''team'', PStr ''Home''), (''point_spread'', PFloat (Finite (- 3))), (''odds'', PInt (- 105)),
      (''ev_percentage'', PFloat (Finite 7)), (''id'', PStr ''doc_b'')]"
  by (simp add: render_def row_b_def convert_field_def)

lemma render_row_c:
  "render row_c =
     [(''game_id'', PStr ''G2''), (''home_team'', PStr ''North''), (''away_team'', PStr ''South''),
      (''commence_time'', PIsoText (now0 + hours 5)), (''bookmaker'', PStr ''A''),
      (''team'', PStr ''South''), (''point_spread'', PFloat (Finite 1.5)), (''odds'', PInt 120),
      (''id'', PStr ''doc_c'')]"
  by (simp add: render_def row_c_def convert_field_def)

lemma keep_row_examples:
  "keep_row None None None (to_dict row_a) = Inr True"
  "keep_row None None None (to_dict row_b) = Inr True"
  "keep_row None None None (to_dict row_c) = Inr True"
  "keep_row (Some []) None None (to_dict row_a) = Inr True"
  "keep_row (Some ''A'') (Some ''Home'') (Some (Finite 2)) (to_dict row_a) = Inr True"
  "keep_row (Some ''A'') (Some ''Home'') (Some (Finite 2)) (to_dict row_b) = Inr False"
  "keep_row None None (Some (Finite 5)) (to_dict row_a) = Inr False"
  "keep_row None None (Some (Finite 5)) (to_dict row_b) = Inr True"
  by (simp_all add: keep_row_def mismatch_def row_a_def row_b_def row_c_def dict_get_def
      ebind_def)

lemma keep_row_nan:
  "keep_row None None (Some NaN) (to_dict row_a) = Inr True"
  "keep_row None None (Some (Finite 5)) (to_dict row_d) = Inr True"
  by (simp_all add: keep_row_def mismatch_def row_a_def row_d_def dict_get_def ebind_def)

lemma render_row_d:
  "render row_d =
     [(''game_id'', PStr ''G3''), (''home_team'', PStr ''East''), (''away_team'', PStr ''West''),
      (''commence_time'', PLocalIsoText (now0 + hours 7)), (''bookmaker'', PStr ''B''),
      (''team'', PStr ''East''), (''point_spread'', PFloat (Finite 2)), (''odds'', PInt 100),
      (''ev_percentage'', PFloat NaN), (''id'', PStr ''doc_d'')]"
  by (simp add: render_def row_d_def convert_field_def)


section \<open>Time window and filters of the output\<close>

lemma float_not_lt_ge:
  "x \<noteq> NaN \<Longrightarrow> y \<noteq> NaN \<Longrightarrow> \<not> float_lt x y \<Longrightarrow> float_ge x y"
  by (cases x; cases y) (simp_all add: float_ge_def)

lemma get_odds_empty_bookmaker:
  "get_odds (Some []) t m h l now st = get_odds None t m h l now st"
  by (rule prod_eqI)
    (simp_all add: get_odds_result get_odds_store odds_loop_empty_bookmaker
      split: option.splits)

lemma get_odds_empty_team:
  "get_odds b (Some []) m h l now st = get_odds b None m h l now st"
  by (rule prod_eqI)
    (simp_all add: get_odds_result get_odds_store odds_loop_empty_team
      split: option.splits)

text \<open>
  C1, as amended. When the documents the store returns lie in the queried range, every
  record of the output of List odds has \<open>now < commence_time\<close> and
  \<open>commence_time \<le> now + hours_ahead\<close>. When a bookmaker or a team is given as a non-empty
  string the record's bookmaker or team equals it; given as the empty string it is
  handled exactly as a filter left out. When \<open>min_ev\<close> is given the record's
  \<open>ev_percentage\<close> is present, is a number and is not below \<open>min_ev\<close>; it is
  \<open>>= min_ev\<close> unless one of the two is NaN.
\<close>

theorem get_odds_output_matches:
  assumes "list_all (\<lambda>d. in_window now (now + hours h) (stored_time (to_dict d)))
             (yielded (respond st (odds_query now h l)))"
    and "fst (get_odds b t m h l now st) = Inr out"
  shows "list_all (\<lambda>r.
           in_window now (now + hours h) (rendered_time r)
           \<and> (\<forall>s. b = Some s \<and> s \<noteq> [] \<longrightarrow> map_of r ''bookmaker'' = Some (PStr s))
           \<and> (\<forall>s. t = Some s \<and> s \<noteq> [] \<longrightarrow> map_of r ''team'' = Some (PStr s))
           \<and> (\<forall>x. m = Some x \<longrightarrow>
                (\<exists>e. ev_value r = Some e \<and> \<not> float_lt e x
                     \<and> (e \<noteq> NaN \<and> x \<noteq> NaN \<longrightarrow> float_ge e x)))) out
     \<and> get_odds (Some []) t m h l now st = get_odds None t m h l now st
     \<and> get_odds b (Some []) m h l now st = get_odds b None m h l now st"
proof -
  let ?rows = "yielded (respond st (odds_query now h l))"
  let ?good = "\<lambda>r. in_window now (now + hours h) (rendered_time r)
           \<and> (\<forall>s. b = Some s \<and> s \<noteq> [] \<longrightarrow> map_of r ''bookmaker'' = Some (PStr s))
           \<and> (\<forall>s. t = Some s \<and> s \<noteq> [] \<longrightarrow> map_of r ''team'' = Some (PStr s))
           \<and> (\<forall>x. m = Some x \<longrightarrow>
                (\<exists>e. ev_value r = Some e \<and> \<not> float_lt e x
                     \<and> (e \<noteq> NaN \<and> x \<noteq> NaN \<longrightarrow> float_ge e x)))"
  from assms(2) have "odds_loop b t m l ?rows [] = Inr out"
    by (simp add: get_odds_result split: option.splits)
  then obtain n where out: "out = map render (filter (kept b t m) (take n ?rows))"
    using odds_loop_shape by fastforce
  have each: "?good (render d)" if d: "d \<in> set (filter (kept b t m) (take n ?rows))" for d
  proof -
    from d have k: "kept b t m d" and "d \<in> set (take n ?rows)" by simp_all
    then have "d \<in> set ?rows" by (meson in_set_takeD)
    with assms(1) have w: "in_window now (now + hours h) (stored_time (to_dict d))"
      by (simp add: list_all_iff)
    then obtain u where u: "stored_time (to_dict d) = Some u"
      by (auto simp: in_window_def split: option.splits)
    with w have win: "in_window now (now + hours h) (rendered_time (render d))"
      by (simp add: rendered_time_render)
    have ev: "\<exists>e. ev_value (render d) = Some e \<and> \<not> float_lt e x
                \<and> (e \<noteq> NaN \<and> x \<noteq> NaN \<longrightarrow> float_ge e x)" if "m = Some x" for x
    proof -
      from k that obtain e where "ev_value (render d) = Some e" and "\<not> float_lt e x"
        using kept_ev by blast
      then show ?thesis using float_not_lt_ge by blast
    qed
    from k win ev show ?thesis
      using kept_bookmaker kept_team by blast
  qed
  have "list_all ?good out"
    unfolding out list_all_iff
  proof (intro ballI)
    fix r
    assume "r \<in> set (map render (filter (kept b t m) (take n ?rows)))"
    then obtain d where "d \<in> set (filter (kept b t m) (take n ?rows))" and "r = render d"
      by auto
    with each [of d] show "?good r" by simp
  qed
  then show ?thesis
    using get_odds_empty_bookmaker get_odds_empty_team by (intro conjI)
qed

theorem get_odds_output_matches_witness:
  "list_all (\<lambda>d. in_window now0 (now0 + hours 48) (stored_time (to_dict d))) [row_a, row_b]
   \<and> fst (get_odds (Some ''A'') (Some ''Home'') (Some (Finite 2)) 48 100 now0
          (answering [row_a, row_b]))
       = Inr [render row_a]
   \<and> in_window now0 (now0 + hours 48) (rendered_time (render row_a))
   \<and> map_of (render row_a) ''bookmaker'' = Some (PStr ''A'')
   \<and> map_of (render row_a) ''team'' = Some (PStr ''Home'')
   \<and> ev_value (render row_a) = Some (Finite 3)
   \<and> float_ge (Finite 3) (Finite 2)
   \<and> get_odds (Some []) (Some ''Home'') (Some (Finite 2)) 48 100 now0 (answering [row_a, row_b])
       = get_odds None (Some ''Home'') (Some (Finite 2)) 48 100 now0 (answering [row_a, row_b])"
proof -
  have rows: "list_all (\<lambda>d. in_window now0 (now0 + hours 48) (stored_time (to_dict d)))
      (yielded (respond (answering [row_a, row_b]) (odds_query now0 48 100)))"
    by (simp add: answering_def stored_time_examples in_window_def hours_def)
  have res: "fst (get_odds (Some ''A'') (Some ''Home'') (Some (Finite 2)) 48 100 now0
      (answering [row_a, row_b])) = Inr [render row_a]"
    by (simp add: get_odds_result answering_def keep_row_examples)
  have res': "fst (get_odds (Some []) (Some ''Home'') (Some (Finite 2)) 48 100 now0
      (answering [row_a, row_b])) = Inr [render row_a, render row_b]"
    by (simp add: get_odds_result answering_def keep_row_def mismatch_def dict_get_def
        ebind_def row_a_def row_b_def)
  have ev: "ev_value (render row_a) = Some (Finite 3)"
    by (simp add: ev_value_def render_row_a)
  note inst = get_odds_output_matches [OF rows res]
  note inst' = get_odds_output_matches [OF rows res']
  from inst have a: "in_window now0 (now0 + hours 48) (rendered_time (render row_a))
      \<and> map_of (render row_a) ''bookmaker'' = Some (PStr ''A'')
      \<and> map_of (render row_a) ''team'' = Some (PStr ''Home'')
      \<and> float_ge (Finite 3) (Finite 2)"
    by (simp add: ev)
  from inst' have b: "get_odds (Some []) (Some ''Home'') (Some (Finite 2)) 48 100 now0
        (answering [row_a, row_b])
      = get_odds None (Some ''Home'') (Some (Finite 2)) 48 100 now0 (answering [row_a, row_b])"
    by (elim conjE)
  from rows res a ev b show ?thesis by (simp add: answering_def)
qed

text \<open>
  C1 as stated fails in two ways. For a bookmaker given as the empty string the filter is
  skipped and a record of another bookmaker is returned. For \<open>min_ev\<close> given as NaN the
  comparison \<open>ev_percentage < min_ev\<close> is false, so a record is returned whose
  \<open>ev_percentage >= min_ev\<close> is false as well.
\<close>

theorem get_odds_filters_counterexample:
  "list_all (\<lambda>d. in_window now0 (now0 + hours 48) (stored_time (to_dict d))) [row_a]
   \<and> fst (odds_endpoint (plain_request\<lparr>r_bookmaker := Some []\<rparr>) now0 (answering [row_a]))
       = Inr [render row_a]
   \<and> map_of (render row_a) ''bookmaker'' = Some (PStr ''A'')
   \<and> PStr ''A'' \<noteq> PStr []
   \<and> fst (odds_endpoint (plain_request\<lparr>r_min_ev := Some NaN\<rparr>) now0 (answering [row_a]))
       = Inr [render row_a]
   \<and> ev_value (render row_a) = Some (Finite 3)
   \<and> \<not> float_ge (Finite 3) NaN"
  by (simp add: odds_endpoint_def plain_request_def check_hours_ahead_def check_limit_def
      get_odds_result answering_def keep_row_examples keep_row_nan stored_time_examples
      in_window_def hours_def render_row_a ev_value_def float_ge_def)


section \<open>The result cap\<close>

lemma odds_loop_nil:
  "odds_loop b t m l [] [] = Inr []"
  by simp




text \<open>
  The cap matters for a limit of 0 only: the loop tests the length after it has appended,
  so a response that held a document in spite of the cap 0 would give one record. A
  document that is not reached raises nothing.
\<close>

lemma get_odds_limit_zero_uncapped:
  "fst (get_odds None None None 48 0 now0 (answering [row_a])) = Inr [render row_a]"
  by (simp add: get_odds_result answering_def keep_row_examples)

lemma get_odds_type_error_not_reached:
  "fst (get_odds None None (Some (Finite 5)) 48 1 now0 (answering [row_b, row_text_ev]))
     = Inr [render row_b]"
  by (simp add: get_odds_result answering_def keep_row_examples)


section \<open>Order of the output\<close>

lemma ascending_sublist:
  assumes "ascending (map f rows)"
  shows "ascending (map f (filter P (take n rows)))"
proof -
  from assms have all: "list_all (\<lambda>k. k \<noteq> None) (map f rows)"
    and srt: "sorted (map (the \<circ> f) rows)"
    by (simp_all add: ascending_def)
  from all have "list_all (\<lambda>k. k \<noteq> None) (map f (filter P (take n rows)))"
    by (auto simp: list_all_iff dest: in_set_takeD)
  moreover have "sorted (map (the \<circ> f) (filter P (take n rows)))"
  proof (rule sorted_filter)
    from srt have "sorted (take n (map (the \<circ> f) rows))"
      by (rule sorted_wrt_take)
    then show "sorted (map (the \<circ> f) (take n rows))" by (simp add: take_map)
  qed
  ultimately show ?thesis by (simp add: ascending_def)
qed

lemma rendered_times:
  assumes "list_all (\<lambda>d. stored_time (to_dict d) \<noteq> None) ds"
  shows "map rendered_time (map render ds) = map (\<lambda>d. stored_time (to_dict d)) ds"
  using assms by (induction ds) (auto simp: rendered_time_render)

text \<open>
  C6. When the documents the store returns are in ascending order of \<open>commence_time\<close>, so
  is the output of List odds.
\<close>

theorem get_odds_sorted:
  assumes "ascending (map (\<lambda>d. stored_time (to_dict d)) (yielded (respond st (odds_query now h l))))"
    and "fst (get_odds b t m h l now st) = Inr out"
  shows "ascending (map rendered_time out)"
proof -
  let ?rows = "yielded (respond st (odds_query now h l))"
  from assms(2) have "odds_loop b t m l ?rows [] = Inr out"
    by (simp add: get_odds_result split: option.splits)
  then obtain n where out: "out = map render (filter (kept b t m) (take n ?rows))"
    using odds_loop_shape by fastforce
  from assms(1) have asc: "ascending (map (\<lambda>d. stored_time (to_dict d))
      (filter (kept b t m) (take n ?rows)))"
    by (rule ascending_sublist)
  then have "list_all (\<lambda>d. stored_time (to_dict d) \<noteq> None) (filter (kept b t m) (take n ?rows))"
    by (simp add: ascending_def list_all_iff)
  then have "map rendered_time out
      = map (\<lambda>d. stored_time (to_dict d)) (filter (kept b t m) (take n ?rows))"
    unfolding out by (rule rendered_times)
  with asc show ?thesis by simp
qed

theorem get_odds_sorted_witness:
  "ascending [Some (now0 + hours 2), Some (now0 + hours 2), Some (now0 + hours 5)]
   \<and> map (\<lambda>d. stored_time (to_dict d)) [row_a, row_b, row_c]
       = [Some (now0 + hours 2), Some (now0 + hours 2), Some (now0 + hours 5)]
   \<and> fst (get_odds (Some ''A'') None None 48 100 now0 (answering [row_a, row_b, row_c]))
       = Inr [render row_a, render row_c]
   \<and> ascending (map rendered_time [render row_a, render row_c])
   \<and> map rendered_time [render row_a, render row_c]
       = [Some (now0 + hours 2), Some (now0 + hours 5)]"
proof -
  have times: "map (\<lambda>d. stored_time (to_dict d)) [row_a, row_b, row_c]
       = [Some (now0 + hours 2), Some (now0 + hours 2), Some (now0 + hours 5)]"
    by (simp add: stored_time_examples)
  have asc: "ascending [Some (now0 + hours 2), Some (now0 + hours 2), Some (now0 + hours 5)]"
    by (simp add: ascending_def hours_def)
  have rows: "ascending (map (\<lambda>d. stored_time (to_dict d))
      (yielded (respond (answering [row_a, row_b, row_c]) (odds_query now0 48 100))))"
    using asc by (simp add: answering_def stored_time_examples)
  have res: "fst (get_odds (Some ''A'') None None 48 100 now0 (answering [row_a, row_b, row_c]))
       = Inr [render row_a, render row_c]"
    by (simp add: get_odds_result answering_def keep_row_def mismatch_def dict_get_def
        row_a_def row_b_def row_c_def)
  have rt: "map rendered_time [render row_a, render row_c]
       = [Some (now0 + hours 2), Some (now0 + hours 5)]"
    by (simp add: rendered_time_def render_row_a render_row_c)
  from get_odds_sorted [OF rows res] times asc res rt show ?thesis by simp
qed

section \<open>The EV threshold\<close>

text \<open>
  C7. With \<open>min_ev\<close> given, a document whose \<open>ev_percentage\<close> is absent, None or below
  \<open>min_ev\<close> is dropped: it fails the filter, and the output of List odds is the same as if
  the store had not returned it. With \<open>min_ev = 5\<close> and a store holding a record with
  \<open>ev_percentage = 3\<close> and one with \<open>ev_percentage = 7\<close>, only the second is returned.
\<close>

theorem get_odds_min_ev_drops:
  "(\<forall>data. ev_missing_or_below x data \<longrightarrow> keep_row b t (Some x) data = Inr False)
   \<and> fst (get_odds b t (Some x) h l now (answering rows))
       = fst (get_odds b t (Some x) h l now
           (answering (filter (\<lambda>d. \<not> ev_missing_or_below x (to_dict d)) rows)))
   \<and> dict_get (to_dict row_a) ''ev_percentage'' = PFloat (Finite 3)
   \<and> dict_get (to_dict row_b) ''ev_percentage'' = PFloat (Finite 7)
   \<and> fst (get_odds None None (Some (Finite 5)) 48 100 now0 (answering [row_a, row_b]))
       = Inr [render row_b]"
proof (intro conjI allI impI)
  fix data
  assume "ev_missing_or_below x data"
  then show "keep_row b t (Some x) data = Inr False"
    by (rule keep_row_missing_or_below)
next
  show "fst (get_odds b t (Some x) h l now (answering rows))
       = fst (get_odds b t (Some x) h l now
           (answering (filter (\<lambda>d. \<not> ev_missing_or_below x (to_dict d)) rows)))"
    using odds_loop_drop [of b t x l rows "[]"]
    by (simp add: get_odds_result answering_def)
next
  show "fst (get_odds None None (Some (Finite 5)) 48 100 now0 (answering [row_a, row_b]))
       = Inr [render row_b]"
    by (simp add: get_odds_result answering_def keep_row_examples)
qed (simp_all add: row_a_def row_b_def dict_get_def)

theorem get_odds_min_ev_drops_witness:
  "ev_missing_or_below (Finite 5) (to_dict row_a)
   \<and> keep_row None None (Some (Finite 5)) (to_dict row_a) = Inr False
   \<and> filter (\<lambda>d. \<not> ev_missing_or_below (Finite 5) (to_dict d)) [row_a, row_b, row_c] = [row_b]
   \<and> fst (get_odds None None (Some (Finite 5)) 48 100 now0 (answering [row_a, row_b, row_c]))
       = fst (get_odds None None (Some (Finite 5)) 48 100 now0 (answering [row_b]))"
proof -
  have below: "ev_missing_or_below (Finite 5) (to_dict row_a)"
    by (simp add: ev_missing_or_below_def row_a_def dict_get_def)
  have rest: "filter (\<lambda>d. \<not> ev_missing_or_below (Finite 5) (to_dict d)) [row_a, row_b, row_c] = [row_b]"
    by (simp add: ev_missing_or_below_def row_a_def row_b_def row_c_def dict_get_def)
  note inst = get_odds_min_ev_drops [of "Finite 5" None None 48 100 now0 "[row_a, row_b, row_c]"]
  from inst [THEN conjunct1, rule_format, of "to_dict row_a"] below
  have a: "keep_row None None (Some (Finite 5)) (to_dict row_a) = Inr False" by blast
  from inst [THEN conjunct2, THEN conjunct1]
  have b: "fst (get_odds None None (Some (Finite 5)) 48 100 now0 (answering [row_a, row_b, row_c]))
       = fst (get_odds None None (Some (Finite 5)) 48 100 now0 (answering [row_b]))"
    unfolding rest .
  from below a rest b show ?thesis by simp
qed


section \<open>Insertion-ordered dictionaries\<close>


lemma first_seen_distinct [simp]: "distinct (first_seen xs)"
  by (induction xs) auto







section \<open>The loop of List games\<close>
























section \<open>Grouping by game\<close>






section \<open>Validation for List games\<close>

lemma games_endpoint_validation:
  "games_endpoint (Some h) now st =
     (if 1 \<le> h \<and> h \<le> 168 then get_upcoming_games h now st
      else (Inl (RequestValidationError [''hours_ahead'']), st))"
  "games_endpoint None now st = get_upcoming_games 48 now st"
  by (simp_all add: games_endpoint_def check_hours_ahead_def)

end
